theory Spec2Isabelle
  imports Complex_Main "HOL-Library.Monad_Syntax"
begin

section \<open>Number model\<close>

text \<open>
  The simulation computes with JavaScript numbers, which are IEEE 754 doubles. The two
  methods that do the arithmetic are modelled twice. In \<open>calculateForce\<close> and \<open>update\<close> a
  number is a \<^typ>\<open>real\<close>: every arithmetic expression of the source is kept with its
  own shape and evaluated exactly, so rounding, NaN and the infinities are not part of
  this form; it is the program on finite numbers with a non-zero mass (the only divisor
  that is not a constant), up to rounding. In \<open>calculateForce_double\<close> and
  \<open>update_double\<close> every operation rounds to a double, and a result that is not a finite
  number is \<open>None\<close>. The one place where the source stores an infinity on purpose, the
  trail capacity, has a type of its own.
\<close>

datatype capacity = Finite real | Infinity

text \<open>\<^verbatim>\<open>this.trail.length > trailLength\<close>, the left side being an array length.\<close>

fun exceeds :: "nat \<Rightarrow> capacity \<Rightarrow> bool" where
  "exceeds n (Finite l) = (l < real n)"
| "exceeds n Infinity = False"

section \<open>Fields, forces and particles\<close>

text \<open>\<^verbatim>\<open>{ magnitude, angle_deg }\<close>, the shape of \<^verbatim>\<open>electricField\<close> and \<^verbatim>\<open>magneticField\<close>.\<close>

record field_obj =
  magnitude :: real
  angle_deg :: real

text \<open>\<^verbatim>\<open>{ Fx, Fy }\<close>, the value \<^verbatim>\<open>calculateForce\<close> returns.\<close>

record force =
  Fx :: real
  Fy :: real

text \<open>
  The fields the constructor of \<^verbatim>\<open>class Particle\<close> sets. The field \<^verbatim>\<open>id\<close> is
  named \<open>id_p\<close> (\<open>id\<close> is the identity function of HOL). A trail entry
  \<^verbatim>\<open>{ x, y }\<close> is a pair.
\<close>

record particle =
  id_p :: string
  q :: real
  m :: real
  x :: real
  y :: real
  vx :: real
  vy :: real
  trail :: "(real \<times> real) list"
  selected :: bool

text \<open>\<^verbatim>\<open>new Particle(id, q, m, x, y, vx, vy)\<close>\<close>

definition Particle :: "string \<Rightarrow> real \<Rightarrow> real \<Rightarrow> real \<Rightarrow> real \<Rightarrow> real \<Rightarrow> real \<Rightarrow> particle" where
  "Particle i q0 m0 x0 y0 vx0 vy0 =
     \<lparr>id_p = i, q = q0, m = m0, x = x0, y = y0, vx = vx0, vy = vy0,
      trail = [], selected = False\<rparr>"

text \<open>
  \<^verbatim>\<open>Particle.calculateForce(E, B)\<close>: reads \<^verbatim>\<open>this.q\<close>, \<^verbatim>\<open>this.vx\<close>,
  \<^verbatim>\<open>this.vy\<close> and the two field objects, writes nothing.
\<close>

definition calculateForce :: "particle \<Rightarrow> field_obj \<Rightarrow> field_obj \<Rightarrow> force" where
  "calculateForce this E B =
     (let E_rad = angle_deg E * pi / 180;
          Ex = magnitude E * cos E_rad;
          Ey = magnitude E * sin E_rad;
          Bz = (if angle_deg B = 90 then magnitude B else - magnitude B)
      in \<lparr>Fx = q this * (Ex + vy this * Bz),
          Fy = q this * (Ey - vx this * Bz)\<rparr>)"

text \<open>
  \<^verbatim>\<open>Particle.update(dt, E, B)\<close>. The global \<^verbatim>\<open>trailLength\<close> it reads is a
  parameter. \<^verbatim>\<open>tempParticle\<close> is a shallow copy of \<^verbatim>\<open>this\<close> whose \<^verbatim>\<open>vx\<close> and
  \<^verbatim>\<open>vy\<close> are overwritten before each of the stages 2 to 4; the copy shares the trail
  array, which no stage touches. \<^verbatim>\<open>push\<close> appends at the end, \<^verbatim>\<open>shift\<close> removes
  the first entry.
\<close>

definition update :: "real \<Rightarrow> field_obj \<Rightarrow> field_obj \<Rightarrow> capacity \<Rightarrow> particle \<Rightarrow> particle" where
  "update dt E B trailLength this =
     (let f1 = calculateForce this E B;
          ax1 = Fx f1 / m this;
          ay1 = Fy f1 / m this;
          vx_temp = vx this + ax1 * dt / 2;
          vy_temp = vy this + ay1 * dt / 2;
          tempParticle = this\<lparr>vx := vx_temp, vy := vy_temp\<rparr>;
          f2 = calculateForce tempParticle E B;
          ax2 = Fx f2 / m this;
          ay2 = Fy f2 / m this;
          vx_temp2 = vx this + ax2 * dt / 2;
          vy_temp2 = vy this + ay2 * dt / 2;
          tempParticle = tempParticle\<lparr>vx := vx_temp2, vy := vy_temp2\<rparr>;
          f3 = calculateForce tempParticle E B;
          ax3 = Fx f3 / m this;
          ay3 = Fy f3 / m this;
          vx_temp3 = vx this + ax3 * dt;
          vy_temp3 = vy this + ay3 * dt;
          tempParticle = tempParticle\<lparr>vx := vx_temp3, vy := vy_temp3\<rparr>;
          f4 = calculateForce tempParticle E B;
          ax4 = Fx f4 / m this;
          ay4 = Fy f4 / m this;
          ax = (ax1 + 2 * ax2 + 2 * ax3 + ax4) / 6;
          ay = (ay1 + 2 * ay2 + 2 * ay3 + ay4) / 6;
          this = this\<lparr>vx := vx this + ax * dt\<rparr>;
          this = this\<lparr>vy := vy this + ay * dt\<rparr>;
          this = this\<lparr>x := x this + vx this * dt\<rparr>;
          this = this\<lparr>y := y this + vy this * dt\<rparr>;
          this = this\<lparr>trail := trail this @ [(x this, y this)]\<rparr>
      in if exceeds (length (trail this)) trailLength
         then this\<lparr>trail := tl (trail this)\<rparr>
         else this)"

section \<open>The step in double precision\<close>













section \<open>The simulation state\<close>

text \<open>
  The global variables of the sketch, as one record. \<^verbatim>\<open>measureStart\<close> and
  \<^verbatim>\<open>measureEnd\<close> are \<^verbatim>\<open>null\<close> or a screen point.
\<close>

record state =
  particles :: "particle list"
  particleIdCounter :: nat
  simulationTime :: real
  isPlaying :: bool
  timeScale :: real
  trailLength :: capacity
  electricField :: field_obj
  magneticField :: field_obj
  measureMode :: bool
  measureStart :: "(real \<times> real) option"
  measureEnd :: "(real \<times> real) option"
  measuring :: bool

text \<open>The values the globals are declared with.\<close>

definition initial_state :: state where
  "initial_state =
     \<lparr>particles = [], particleIdCounter = 0, simulationTime = 0, isPlaying = False,
      timeScale = 1.0, trailLength = Finite 200,
      electricField = \<lparr>magnitude = 0, angle_deg = 0\<rparr>,
      magneticField = \<lparr>magnitude = 0, angle_deg = 90\<rparr>,
      measureMode = False, measureStart = None, measureEnd = None, measuring = False\<rparr>"

definition CANVAS_WIDTH :: real where "CANVAS_WIDTH = 900"
definition CANVAS_HEIGHT :: real where "CANVAS_HEIGHT = 700"
definition SCALE :: real where "SCALE = 28"

definition screenToWorld :: "real \<Rightarrow> real \<Rightarrow> real \<times> real" where
  "screenToWorld sx sy = ((sx - CANVAS_WIDTH / 2) / SCALE, (CANVAS_HEIGHT / 2 - sy) / SCALE)"

text \<open>The decimal digits of a counter, as the template literal \<^verbatim>\<open>`p${...}`\<close> prints them.\<close>

fun string_of_nat :: "nat \<Rightarrow> string" where
  "string_of_nat n =
     (if n < 10 then [''0123456789'' ! n]
      else string_of_nat (n div 10) @ [''0123456789'' ! (n mod 10)])"

declare string_of_nat.simps [simp del]

text \<open>\<^verbatim>\<open>addParticle(q, m, vx, vy)\<close>: no check of its arguments.\<close>

definition addParticle :: "real \<Rightarrow> real \<Rightarrow> real \<Rightarrow> real \<Rightarrow> state \<Rightarrow> state" where
  "addParticle q0 m0 vx0 vy0 s =
     (let worldPos = screenToWorld (CANVAS_WIDTH / 2) (CANVAS_HEIGHT / 2);
          particle = Particle (''p'' @ string_of_nat (particleIdCounter s))
                       q0 m0 (fst worldPos) (snd worldPos) vx0 vy0;
          s = s\<lparr>particleIdCounter := particleIdCounter s + 1\<rparr>
      in s\<lparr>particles := particles s @ [particle]\<rparr>)"

definition clearParticles :: "state \<Rightarrow> state" where
  "clearParticles s = s\<lparr>particles := [], particleIdCounter := 0\<rparr>"

definition resetSimulation :: "state \<Rightarrow> state" where
  "resetSimulation s =
     s\<lparr>particles := map (\<lambda>p. p\<lparr>trail := []\<rparr>) (particles s), simulationTime := 0\<rparr>"

text \<open>\<^verbatim>\<open>togglePlayPause()\<close> also returns the new flag; the model keeps the state.\<close>

definition togglePlayPause :: "state \<Rightarrow> state" where
  "togglePlayPause s = s\<lparr>isPlaying := \<not> isPlaying s\<rparr>"

definition stepSimulation :: "state \<Rightarrow> state" where
  "stepSimulation s =
     (let dt = (1 / 60) * timeScale s;
          s = s\<lparr>particles :=
                 map (update dt (electricField s) (magneticField s) (trailLength s))
                   (particles s)\<rparr>
      in s\<lparr>simulationTime := simulationTime s + dt\<rparr>)"

definition setTimeScale :: "real \<Rightarrow> state \<Rightarrow> state" where
  "setTimeScale scale s = s\<lparr>timeScale := scale\<rparr>"

definition setTrailLength :: "capacity \<Rightarrow> state \<Rightarrow> state" where
  "setTrailLength len s = s\<lparr>trailLength := len\<rparr>"

definition setElectricField :: "real \<Rightarrow> real \<Rightarrow> state \<Rightarrow> state" where
  "setElectricField mag ang s = s\<lparr>electricField := \<lparr>magnitude = mag, angle_deg = ang\<rparr>\<rparr>"

definition setMagneticField :: "real \<Rightarrow> real \<Rightarrow> state \<Rightarrow> state" where
  "setMagneticField mag ang s = s\<lparr>magneticField := \<lparr>magnitude = mag, angle_deg = ang\<rparr>\<rparr>"

text \<open>
  \<^verbatim>\<open>draw()\<close>, the function p5.js calls once per frame: what it does to the globals.
  The drawing calls around the \<^verbatim>\<open>if (isPlaying)\<close> block read the state and paint;
  \<^verbatim>\<open>updateInfo\<close> calls \<^verbatim>\<open>updateSimulationInfo\<close>, whose body is empty.
\<close>

definition draw :: "state \<Rightarrow> state" where
  "draw s =
     (if isPlaying s then
        (let dt = (1 / 60) * timeScale s;
             s = s\<lparr>particles :=
                    map (update dt (electricField s) (magneticField s) (trailLength s))
                      (particles s)\<rparr>
         in s\<lparr>simulationTime := simulationTime s + dt\<rparr>)
      else s)"

section \<open>The add-particle button\<close>

text \<open>
  The click handler \<^verbatim>\<open>initializeControls\<close> registers on \<^verbatim>\<open>add-particle\<close>. Its four
  arguments are the results of \<^verbatim>\<open>parseFloat\<close> on the input boxes: \<open>None\<close> is NaN,
  \<open>Some r\<close> a finite number (an infinite result is outside the number model). It
  returns the text of the alert it raised, if any, and the state.
\<close>

definition add_particle_click ::
  "real option \<Rightarrow> real option \<Rightarrow> real option \<Rightarrow> real option \<Rightarrow> state \<Rightarrow> string option \<times> state" where
  "add_particle_click q0 m0 vx0 vy0 s =
     (case (q0, m0, vx0, vy0) of
        (Some qv, Some mv, Some vxv, Some vyv) \<Rightarrow>
          if mv \<le> 0 then (Some ''Mass must be a positive value'', s)
          else (None, addParticle qv mv vxv vyv s)
      | _ \<Rightarrow> (Some ''Please enter valid numbers for all parameters'', s))"

section \<open>Scene import\<close>

text \<open>
  The document \<^verbatim>\<open>JSON.parse\<close> returns, as far as \<^verbatim>\<open>importScene\<close> reads it. A key
  that is absent is \<open>None\<close>; a key that is present holds a value of the type
  \<^verbatim>\<open>exportScene\<close> writes. An entry of the \<^verbatim>\<open>particles\<close> array is \<^verbatim>\<open>null\<close>
  (\<open>None\<close>) or a value whose keys can be read; each of the seven keys of a particle may
  be absent from it (a number such as \<^verbatim>\<open>5\<close> in the array is an entry with no key).
\<close>

record field_doc =
  magnitude_doc :: "real option"
  angle_deg_doc :: "real option"

record fields_doc =
  E_doc :: "field_doc option"
  B_doc :: "field_doc option"

record particle_doc =
  id_doc :: "string option"
  q_doc :: "real option"
  m_doc :: "real option"
  x_doc :: "real option"
  y_doc :: "real option"
  vx_doc :: "real option"
  vy_doc :: "real option"

record scene_doc =
  fields_doc :: "fields_doc option"
  particles_doc :: "particle_doc option list option"
  simulationTime_doc :: "real option"
  timeScale_doc :: "real option"
  trailLength_doc :: "real option"

text \<open>\<^verbatim>\<open>v || d\<close> on a number that may be absent: absent and \<^verbatim>\<open>0\<close> are falsy.\<close>

definition or_default :: "real option \<Rightarrow> real \<Rightarrow> real" where
  "or_default v d = (case v of None \<Rightarrow> d | Some r \<Rightarrow> if r = 0 then d else r)"

text \<open>
  Reading an absent key gives \<^verbatim>\<open>undefined\<close>, without an exception, and the import
  stores it. A global or a particle that holds \<^verbatim>\<open>undefined\<close> has no value in the types
  above, so the import is followed on a \<^typ>\<open>state option\<close>: \<open>None\<close> from the first
  assignment of an \<^verbatim>\<open>undefined\<close> on.

  \<open>store_field\<close> is \<^verbatim>\<open>setElectricField(f.magnitude, f.angle_deg)\<close> or its magnetic twin
  on a field object of the document, \<open>particle_of\<close> is
  \<^verbatim>\<open>new Particle(pData.id, pData.q, pData.m, pData.x, pData.y, pData.vx, pData.vy)\<close>.
\<close>

definition store_field ::
  "(real \<Rightarrow> real \<Rightarrow> state \<Rightarrow> state) \<Rightarrow> field_doc \<Rightarrow> state option \<Rightarrow> state option" where
  "store_field setter f st =
     (case (st, magnitude_doc f, angle_deg_doc f) of
        (Some s, Some mag, Some ang) \<Rightarrow> Some (setter mag ang s)
      | _ \<Rightarrow> None)"

definition particle_of :: "particle_doc \<Rightarrow> particle option" where
  "particle_of pData =
     (case (id_doc pData, q_doc pData, m_doc pData, x_doc pData, y_doc pData,
            vx_doc pData, vy_doc pData) of
        (Some i, Some q0, Some m0, Some x0, Some y0, Some vx0, Some vy0) \<Rightarrow>
          Some (Particle i q0 m0 x0 y0 vx0 vy0)
      | _ \<Rightarrow> None)"

text \<open>
  The \<^verbatim>\<open>forEach\<close> over \<^verbatim>\<open>scene.particles\<close>: each entry becomes a
  \<^verbatim>\<open>new Particle\<close> pushed on \<^verbatim>\<open>particles\<close>. Reading \<^verbatim>\<open>pData.id\<close> of
  \<^verbatim>\<open>null\<close> throws; the flag returned says whether the loop ran to its end.
\<close>

fun push_all :: "particle_doc option list \<Rightarrow> state option \<Rightarrow> bool \<times> state option" where
  "push_all [] st = (True, st)"
| "push_all (None # ds) st = (False, st)"
| "push_all (Some pData # ds) st =
     push_all ds
       (case (st, particle_of pData) of
          (Some s, Some particle) \<Rightarrow> Some (s\<lparr>particles := particles s @ [particle]\<rparr>)
        | _ \<Rightarrow> None)"

datatype import_result = Loaded | Failed

text \<open>
  The \<^verbatim>\<open>reader.onload\<close> callback of \<^verbatim>\<open>importScene\<close>. Its argument is the result of
  \<^verbatim>\<open>JSON.parse\<close>, \<open>None\<close> when the text does not parse. Every statement of the
  \<^verbatim>\<open>try\<close> block that can throw is a \<open>case\<close>; the \<^verbatim>\<open>catch\<close> block logs,
  raises the alert and returns (\<open>Failed\<close>), with the globals as the statements before
  the throw left them. \<open>Loaded\<close> is the end of the \<^verbatim>\<open>try\<close> block, where the success
  is logged.
\<close>

definition importScene :: "scene_doc option \<Rightarrow> state \<Rightarrow> import_result \<times> state option" where
  "importScene parsed s =
     (case parsed of
        None \<Rightarrow> (Failed, Some s)
      | Some scene \<Rightarrow>
     (case fields_doc scene of
        None \<Rightarrow> (Failed, Some s)
      | Some fs \<Rightarrow>
     (case E_doc fs of
        None \<Rightarrow> (Failed, Some s)
      | Some e \<Rightarrow>
     (let st = store_field setElectricField e (Some s) in
     (case B_doc fs of
        None \<Rightarrow> (Failed, st)
      | Some b \<Rightarrow>
     (let st = store_field setMagneticField b st;
          st = map_option clearParticles st in
     (case particles_doc scene of
        None \<Rightarrow> (Failed, st)
      | Some ds \<Rightarrow>
     (case push_all ds st of
        (False, st) \<Rightarrow> (Failed, st)
      | (True, st) \<Rightarrow>
     (let st = map_option
                 (\<lambda>s. s\<lparr>simulationTime := or_default (simulationTime_doc scene) 0\<rparr>) st;
          st = map_option (setTimeScale (or_default (timeScale_doc scene) 1.0)) st;
          st = map_option
                 (setTrailLength (Finite (or_default (trailLength_doc scene) 200))) st
      in (Loaded, st))))))))))"

text \<open>
  A malformed document, in the words of the specification: a required part is missing.
  The required parts are \<^verbatim>\<open>fields\<close> with \<^verbatim>\<open>E\<close> and \<^verbatim>\<open>B\<close>, each with
  \<^verbatim>\<open>magnitude\<close> and \<^verbatim>\<open>angle_deg\<close>, and \<^verbatim>\<open>particles\<close>, each entry with its seven
  keys. (\<^verbatim>\<open>simulationTime\<close>, \<^verbatim>\<open>timeScale\<close> and \<^verbatim>\<open>trailLength\<close> have defaults in
  the code and are not counted.)
\<close>

fun complete_field :: "field_doc option \<Rightarrow> bool" where
  "complete_field None = False"
| "complete_field (Some f) = (magnitude_doc f \<noteq> None \<and> angle_deg_doc f \<noteq> None)"

fun complete_fields :: "fields_doc option \<Rightarrow> bool" where
  "complete_fields None = False"
| "complete_fields (Some fs) = (complete_field (E_doc fs) \<and> complete_field (B_doc fs))"

fun complete_entry :: "particle_doc option \<Rightarrow> bool" where
  "complete_entry None = False"
| "complete_entry (Some pData) = (particle_of pData \<noteq> None)"

fun complete_particles :: "particle_doc option list option \<Rightarrow> bool" where
  "complete_particles None = False"
| "complete_particles (Some ds) = list_all complete_entry ds"

fun malformed :: "scene_doc option \<Rightarrow> bool" where
  "malformed None = True"
| "malformed (Some scene) =
     (\<not> (complete_fields (fields_doc scene) \<and> complete_particles (particles_doc scene)))"

text \<open>
  The documents on which a statement of the \<^verbatim>\<open>try\<close> block throws: the text does not
  parse, or \<^verbatim>\<open>fields\<close>, \<^verbatim>\<open>fields.E\<close>, \<^verbatim>\<open>fields.B\<close> or \<^verbatim>\<open>particles\<close> is
  absent, or an entry of \<^verbatim>\<open>particles\<close> is \<^verbatim>\<open>null\<close>.
\<close>

fun has_fields :: "fields_doc option \<Rightarrow> bool" where
  "has_fields None = False"
| "has_fields (Some fs) = (E_doc fs \<noteq> None \<and> B_doc fs \<noteq> None)"

fun has_particles :: "particle_doc option list option \<Rightarrow> bool" where
  "has_particles None = False"
| "has_particles (Some ds) = (None \<notin> set ds)"

fun throws :: "scene_doc option \<Rightarrow> bool" where
  "throws None = True"
| "throws (Some scene) =
     (\<not> (has_fields (fields_doc scene) \<and> has_particles (particles_doc scene)))"

text \<open>The documents on which the first statement of the \<^verbatim>\<open>try\<close> block throws.\<close>

fun fails_at_once :: "scene_doc option \<Rightarrow> bool" where
  "fails_at_once None = True"
| "fails_at_once (Some scene) =
     (case fields_doc scene of None \<Rightarrow> True | Some fs \<Rightarrow> E_doc fs = None)"

section \<open>The integration scheme in the words of the specification\<close>





text \<open>
  The positions a particle has after each of its first \<open>n\<close> steps, oldest first: what a
  trail that never evicts would hold.
\<close>

definition position :: "particle \<Rightarrow> real \<times> real" where
  "position p = (x p, y p)"

definition post_step_positions ::
  "nat \<Rightarrow> real \<Rightarrow> field_obj \<Rightarrow> field_obj \<Rightarrow> capacity \<Rightarrow> particle \<Rightarrow> (real \<times> real) list" where
  "post_step_positions n dt E B L p =
     map (\<lambda>k. position ((update dt E B L ^^ k) p)) [1..<Suc n]"

text \<open>
  The bound on the trails as a predicate of the state: no trail is longer than
  \<^verbatim>\<open>trailLength\<close>. It holds of any trail when the capacity is \<open>Infinity\<close>.
\<close>

definition trail_invariant :: "state \<Rightarrow> bool" where
  "trail_invariant s =
     list_all (\<lambda>p. \<not> exceeds (length (trail p)) (trailLength s)) (particles s)"

section \<open>Concrete scenes\<close>

definition no_field :: field_obj where
  "no_field = \<lparr>magnitude = 0, angle_deg = 0\<rparr>"


definition probe :: particle where
  "probe = Particle ''p0'' 1 1 0 0 2 0"





definition one_particle :: state where
  "one_particle = addParticle 1 1 1 0 initial_state"

definition three_steps :: state where
  "three_steps = stepSimulation (stepSimulation (stepSimulation one_particle))"

definition doc_E :: field_doc where
  "doc_E = \<lparr>magnitude_doc = Some 2, angle_deg_doc = Some 0\<rparr>"

definition doc_B :: field_doc where
  "doc_B = \<lparr>magnitude_doc = Some 1, angle_deg_doc = Some 90\<rparr>"

definition doc_particle :: particle_doc where
  "doc_particle =
     \<lparr>id_doc = Some ''p7'', q_doc = Some 1, m_doc = Some 1, x_doc = Some 0, y_doc = Some 0,
      vx_doc = Some 2, vy_doc = Some 0\<rparr>"

definition empty_object :: particle_doc where
  "empty_object =
     \<lparr>id_doc = None, q_doc = None, m_doc = None, x_doc = None, y_doc = None,
      vx_doc = None, vy_doc = None\<rparr>"

definition scene_without_fields :: scene_doc where
  "scene_without_fields =
     \<lparr>fields_doc = None, particles_doc = Some [Some doc_particle],
      simulationTime_doc = Some 3, timeScale_doc = Some 2, trailLength_doc = Some 50\<rparr>"

definition scene_without_B :: scene_doc where
  "scene_without_B =
     \<lparr>fields_doc = Some \<lparr>E_doc = Some doc_E, B_doc = None\<rparr>,
      particles_doc = Some [Some doc_particle],
      simulationTime_doc = Some 3, timeScale_doc = Some 2, trailLength_doc = Some 50\<rparr>"

definition scene_without_particles :: scene_doc where
  "scene_without_particles =
     \<lparr>fields_doc = Some \<lparr>E_doc = Some doc_E, B_doc = Some doc_B\<rparr>,
      particles_doc = None, simulationTime_doc = None, timeScale_doc = None,
      trailLength_doc = None\<rparr>"

definition scene_with_null_entry :: scene_doc where
  "scene_with_null_entry =
     \<lparr>fields_doc = Some \<lparr>E_doc = Some doc_E, B_doc = Some doc_B\<rparr>,
      particles_doc = Some [Some doc_particle, None, Some doc_particle],
      simulationTime_doc = Some 3, timeScale_doc = Some 2, trailLength_doc = Some 50\<rparr>"

definition scene_of_empty_objects :: scene_doc where
  "scene_of_empty_objects =
     \<lparr>fields_doc =
        Some \<lparr>E_doc = Some \<lparr>magnitude_doc = None, angle_deg_doc = None\<rparr>,
              B_doc = Some \<lparr>magnitude_doc = None, angle_deg_doc = None\<rparr>\<rparr>,
      particles_doc = Some [Some empty_object],
      simulationTime_doc = None, timeScale_doc = None, trailLength_doc = None\<rparr>"

section \<open>The force law\<close>

lemma calculateForce_Fx:
  "Fx (calculateForce this E B) =
     q this * (magnitude E * cos (angle_deg E * pi / 180) +
       vy this * (if angle_deg B = 90 then magnitude B else - magnitude B))"
  by (simp add: calculateForce_def Let_def)

lemma calculateForce_Fy:
  "Fy (calculateForce this E B) =
     q this * (magnitude E * sin (angle_deg E * pi / 180) -
       vx this * (if angle_deg B = 90 then magnitude B else - magnitude B))"
  by (simp add: calculateForce_def Let_def)


text \<open>
  C10: the magnetic field enters the force as \<open>+magnitude\<close> when \<open>angle_deg\<close> is exactly
  90, and as \<open>-magnitude\<close> for every other \<open>angle_deg\<close>.
\<close>

theorem calculateForce_Bz_sign:
  "(angle_deg B = 90 \<longrightarrow>
      calculateForce this E B =
        \<lparr>Fx = q this * (magnitude E * cos (angle_deg E * pi / 180) + vy this * magnitude B),
         Fy = q this * (magnitude E * sin (angle_deg E * pi / 180) - vx this * magnitude B)\<rparr>) \<and>
   (angle_deg B \<noteq> 90 \<longrightarrow>
      calculateForce this E B =
        \<lparr>Fx = q this * (magnitude E * cos (angle_deg E * pi / 180) + vy this * (- magnitude B)),
         Fy = q this * (magnitude E * sin (angle_deg E * pi / 180) - vx this * (- magnitude B))\<rparr>)"
  by (simp add: calculateForce_def Let_def)

theorem calculateForce_Bz_sign_witness:
  "calculateForce (Particle ''p0'' 1 1 0 0 2 5) no_field \<lparr>magnitude = 3, angle_deg = 90\<rparr> =
     \<lparr>Fx = 15, Fy = - 6\<rparr> \<and>
   calculateForce (Particle ''p0'' 1 1 0 0 2 5) no_field \<lparr>magnitude = 3, angle_deg = 270\<rparr> =
     \<lparr>Fx = - 15, Fy = 6\<rparr> \<and>
   calculateForce (Particle ''p0'' 1 1 0 0 2 5) no_field \<lparr>magnitude = 3, angle_deg = 0\<rparr> =
     \<lparr>Fx = - 15, Fy = 6\<rparr> \<and>
   calculateForce (Particle ''p0'' 1 1 0 0 2 5) no_field \<lparr>magnitude = 3, angle_deg = 45\<rparr> =
     \<lparr>Fx = - 15, Fy = 6\<rparr>"
  using
    calculateForce_Bz_sign [of "\<lparr>magnitude = 3, angle_deg = 90\<rparr>"
      "Particle ''p0'' 1 1 0 0 2 5" no_field]
    calculateForce_Bz_sign [of "\<lparr>magnitude = 3, angle_deg = 270\<rparr>"
      "Particle ''p0'' 1 1 0 0 2 5" no_field]
    calculateForce_Bz_sign [of "\<lparr>magnitude = 3, angle_deg = 0\<rparr>"
      "Particle ''p0'' 1 1 0 0 2 5" no_field]
    calculateForce_Bz_sign [of "\<lparr>magnitude = 3, angle_deg = 45\<rparr>"
      "Particle ''p0'' 1 1 0 0 2 5" no_field]
  by (simp add: Particle_def no_field_def)

section \<open>One integrator step\<close>

text \<open>
  The step with its intermediate values named: the four forces, the blended acceleration,
  the new velocity and the new position. Every later proof about \<open>update\<close> starts here.
\<close>

lemma update_stages:
  obtains f1 f2 f3 f4 ax ay vx1 vy1 x1 y1 where
    "f1 = calculateForce p E B"
    "f2 = calculateForce
            (p\<lparr>vx := vx p + Fx f1 / m p * dt / 2, vy := vy p + Fy f1 / m p * dt / 2\<rparr>) E B"
    "f3 = calculateForce
            (p\<lparr>vx := vx p + Fx f2 / m p * dt / 2, vy := vy p + Fy f2 / m p * dt / 2\<rparr>) E B"
    "f4 = calculateForce
            (p\<lparr>vx := vx p + Fx f3 / m p * dt, vy := vy p + Fy f3 / m p * dt\<rparr>) E B"
    "ax = (Fx f1 / m p + 2 * (Fx f2 / m p) + 2 * (Fx f3 / m p) + Fx f4 / m p) / 6"
    "ay = (Fy f1 / m p + 2 * (Fy f2 / m p) + 2 * (Fy f3 / m p) + Fy f4 / m p) / 6"
    "vx1 = vx p + ax * dt"
    "vy1 = vy p + ay * dt"
    "x1 = x p + vx1 * dt"
    "y1 = y p + vy1 * dt"
    "update dt E B L p =
       p\<lparr>vx := vx1, vy := vy1, x := x1, y := y1,
         trail := (if exceeds (Suc (length (trail p))) L
                   then tl (trail p @ [(x1, y1)]) else trail p @ [(x1, y1)])\<rparr>"
proof -
  define f1 where "f1 = calculateForce p E B"
  define t1 where "t1 = p\<lparr>vx := vx p + Fx f1 / m p * dt / 2, vy := vy p + Fy f1 / m p * dt / 2\<rparr>"
  define f2 where "f2 = calculateForce t1 E B"
  define t2 where "t2 = t1\<lparr>vx := vx p + Fx f2 / m p * dt / 2, vy := vy p + Fy f2 / m p * dt / 2\<rparr>"
  define f3 where "f3 = calculateForce t2 E B"
  define t3 where "t3 = t2\<lparr>vx := vx p + Fx f3 / m p * dt, vy := vy p + Fy f3 / m p * dt\<rparr>"
  define f4 where "f4 = calculateForce t3 E B"
  define ax where "ax = (Fx f1 / m p + 2 * (Fx f2 / m p) + 2 * (Fx f3 / m p) + Fx f4 / m p) / 6"
  define ay where "ay = (Fy f1 / m p + 2 * (Fy f2 / m p) + 2 * (Fy f3 / m p) + Fy f4 / m p) / 6"
  define p1 where "p1 = p\<lparr>vx := vx p + ax * dt\<rparr>"
  define p2 where "p2 = p1\<lparr>vy := vy p1 + ay * dt\<rparr>"
  define p3 where "p3 = p2\<lparr>x := x p2 + vx p2 * dt\<rparr>"
  define p4 where "p4 = p3\<lparr>y := y p3 + vy p3 * dt\<rparr>"
  define p5 where "p5 = p4\<lparr>trail := trail p4 @ [(x p4, y p4)]\<rparr>"
  have unfolded: "update dt E B L p =
      (if exceeds (length (trail p5)) L then p5\<lparr>trail := tl (trail p5)\<rparr> else p5)"
    unfolding update_def Let_def p5_def p4_def p3_def p2_def p1_def ax_def ay_def
      f4_def t3_def f3_def t2_def f2_def t1_def f1_def
    by (rule refl)
  have t2: "t2 = p\<lparr>vx := vx p + Fx f2 / m p * dt / 2, vy := vy p + Fy f2 / m p * dt / 2\<rparr>"
    by (simp add: t2_def t1_def)
  have t3: "t3 = p\<lparr>vx := vx p + Fx f3 / m p * dt, vy := vy p + Fy f3 / m p * dt\<rparr>"
    by (simp add: t3_def t2)
  have p5: "p5 = p\<lparr>vx := vx p + ax * dt, vy := vy p + ay * dt,
      x := x p + (vx p + ax * dt) * dt, y := y p + (vy p + ay * dt) * dt,
      trail := trail p @ [(x p + (vx p + ax * dt) * dt, y p + (vy p + ay * dt) * dt)]\<rparr>"
    by (simp add: p5_def p4_def p3_def p2_def p1_def)
  show thesis
  proof (rule that [of f1 f2 f3 f4 ax ay "vx p + ax * dt" "vy p + ay * dt"
        "x p + (vx p + ax * dt) * dt" "y p + (vy p + ay * dt) * dt"])
    show "f1 = calculateForce p E B" by (rule f1_def)
    show "f2 = calculateForce
            (p\<lparr>vx := vx p + Fx f1 / m p * dt / 2, vy := vy p + Fy f1 / m p * dt / 2\<rparr>) E B"
      by (simp only: f2_def t1_def)
    show "f3 = calculateForce
            (p\<lparr>vx := vx p + Fx f2 / m p * dt / 2, vy := vy p + Fy f2 / m p * dt / 2\<rparr>) E B"
      by (simp only: f3_def t2)
    show "f4 = calculateForce
            (p\<lparr>vx := vx p + Fx f3 / m p * dt, vy := vy p + Fy f3 / m p * dt\<rparr>) E B"
      by (simp only: f4_def t3)
    show "ax = (Fx f1 / m p + 2 * (Fx f2 / m p) + 2 * (Fx f3 / m p) + Fx f4 / m p) / 6"
      by (rule ax_def)
    show "ay = (Fy f1 / m p + 2 * (Fy f2 / m p) + 2 * (Fy f3 / m p) + Fy f4 / m p) / 6"
      by (rule ay_def)
    show "update dt E B L p =
       p\<lparr>vx := vx p + ax * dt, vy := vy p + ay * dt, x := x p + (vx p + ax * dt) * dt,
         y := y p + (vy p + ay * dt) * dt,
         trail := (if exceeds (Suc (length (trail p))) L
                   then tl (trail p @ [(x p + (vx p + ax * dt) * dt, y p + (vy p + ay * dt) * dt)])
                   else trail p @ [(x p + (vx p + ax * dt) * dt, y p + (vy p + ay * dt) * dt)])\<rparr>"
      unfolding unfolded by (simp add: p5)
  qed (rule refl)+
qed



text \<open>
  C9: a step changes the position, the velocity and the trail of the particle only: its
  id, charge, mass and selection flag are those it had. The field objects are read, not
  written: \<open>update\<close> returns the particle alone, and the two globals that hold them are
  the same after \<open>stepSimulation\<close> and after \<open>draw\<close>.
\<close>

theorem update_frame:
  "id_p (update dt E B L p) = id_p p \<and>
   q (update dt E B L p) = q p \<and>
   m (update dt E B L p) = m p \<and>
   selected (update dt E B L p) = selected p \<and>
   electricField (stepSimulation s) = electricField s \<and>
   magneticField (stepSimulation s) = magneticField s \<and>
   electricField (draw s) = electricField s \<and>
   magneticField (draw s) = magneticField s"
proof -
  obtain vx1 vy1 x1 y1 t1 where
    "update dt E B L p = p\<lparr>vx := vx1, vy := vy1, x := x1, y := y1, trail := t1\<rparr>"
    by (rule update_stages [of p E B dt L]) blast
  then show ?thesis
    by (simp add: stepSimulation_def draw_def Let_def)
qed

section \<open>Motion without fields\<close>

lemma calculateForce_zero_fields:
  "magnitude E = 0 \<Longrightarrow> magnitude B = 0 \<Longrightarrow> calculateForce this E B = \<lparr>Fx = 0, Fy = 0\<rparr>"
  by (simp add: calculateForce_def)

lemma update_zero_fields:
  assumes "magnitude E = 0" and "magnitude B = 0"
  shows "vx (update dt E B L p) = vx p \<and> vy (update dt E B L p) = vy p \<and>
         x (update dt E B L p) = x p + vx p * dt \<and> y (update dt E B L p) = y p + vy p * dt \<and>
         m (update dt E B L p) = m p"
proof -
  obtain f1 f2 f3 f4 ax ay vx1 vy1 x1 y1 where
    f1: "f1 = calculateForce p E B" and
    f2: "f2 = calculateForce
            (p\<lparr>vx := vx p + Fx f1 / m p * dt / 2, vy := vy p + Fy f1 / m p * dt / 2\<rparr>) E B" and
    f3: "f3 = calculateForce
            (p\<lparr>vx := vx p + Fx f2 / m p * dt / 2, vy := vy p + Fy f2 / m p * dt / 2\<rparr>) E B" and
    f4: "f4 = calculateForce
            (p\<lparr>vx := vx p + Fx f3 / m p * dt, vy := vy p + Fy f3 / m p * dt\<rparr>) E B" and
    ax: "ax = (Fx f1 / m p + 2 * (Fx f2 / m p) + 2 * (Fx f3 / m p) + Fx f4 / m p) / 6" and
    ay: "ay = (Fy f1 / m p + 2 * (Fy f2 / m p) + 2 * (Fy f3 / m p) + Fy f4 / m p) / 6" and
    vx1: "vx1 = vx p + ax * dt" and
    vy1: "vy1 = vy p + ay * dt" and
    x1: "x1 = x p + vx1 * dt" and
    y1: "y1 = y p + vy1 * dt" and
    upd: "update dt E B L p =
       p\<lparr>vx := vx1, vy := vy1, x := x1, y := y1,
         trail := (if exceeds (Suc (length (trail p))) L
                   then tl (trail p @ [(x1, y1)]) else trail p @ [(x1, y1)])\<rparr>"
    by (rule update_stages [of p E B dt L])
  have zero: "f1 = \<lparr>Fx = 0, Fy = 0\<rparr>" "f2 = \<lparr>Fx = 0, Fy = 0\<rparr>" "f3 = \<lparr>Fx = 0, Fy = 0\<rparr>"
    "f4 = \<lparr>Fx = 0, Fy = 0\<rparr>"
    using assms by (simp_all only: f1 f2 f3 f4 calculateForce_zero_fields)
  have "ax = 0" "ay = 0"
    by (simp_all add: ax ay zero)
  then show ?thesis
    by (simp add: upd vx1 vy1 x1 y1)
qed

lemma zero_field_steps:
  assumes "magnitude E = 0" and "magnitude B = 0"
  shows "vx ((update dt E B L ^^ n) p) = vx p \<and>
         vy ((update dt E B L ^^ n) p) = vy p \<and>
         x ((update dt E B L ^^ n) p) = x p + vx p * real n * dt \<and>
         y ((update dt E B L ^^ n) p) = y p + vy p * real n * dt"
proof (induction n)
  case 0
  show ?case by simp
next
  case (Suc n)
  show ?case
    using Suc update_zero_fields [OF assms, of dt L "(update dt E B L ^^ n) p"]
    by (simp add: algebra_simps)
qed

















section \<open>The trail\<close>

lemma update_trail:
  "trail (update dt E B L p) =
     (if exceeds (Suc (length (trail p))) L
      then tl (trail p @ [position (update dt E B L p)])
      else trail p @ [position (update dt E B L p)])"
proof -
  obtain vx1 vy1 x1 y1 where
    "update dt E B L p =
       p\<lparr>vx := vx1, vy := vy1, x := x1, y := y1,
         trail := (if exceeds (Suc (length (trail p))) L
                   then tl (trail p @ [(x1, y1)]) else trail p @ [(x1, y1)])\<rparr>"
    by (rule update_stages [of p E B dt L]) blast
  then show ?thesis
    by (simp add: position_def)
qed

lemma length_trail_update:
  "length (trail (update dt E B L p)) =
     (if exceeds (Suc (length (trail p))) L then length (trail p) else Suc (length (trail p)))"
  by (simp add: update_trail)

lemma post_step_positions_Suc:
  "post_step_positions (Suc n) dt E B L p =
     post_step_positions n dt E B L p @ [position ((update dt E B L ^^ Suc n) p)]"
  by (simp add: post_step_positions_def)

lemma length_post_step_positions: "length (post_step_positions n dt E B L p) = n"
  by (simp add: post_step_positions_def)

lemma drop_snoc_le: "d \<le> length xs \<Longrightarrow> drop d (xs @ [a]) = drop d xs @ [a]"
  by simp

lemma trail_after_steps_finite:
  assumes "length (trail p) \<le> L"
  shows "trail ((update dt E B (Finite (real L)) ^^ n) p) =
           drop (length (trail p) + n - L)
             (trail p @ post_step_positions n dt E B (Finite (real L)) p)"
proof (induction n)
  case 0
  show ?case
    using assms by (simp add: post_step_positions_def)
next
  case (Suc n)
  define r where "r = (update dt E B (Finite (real L)) ^^ n) p"
  define old where "old = trail p @ post_step_positions n dt E B (Finite (real L)) p"
  define new where "new = position (update dt E B (Finite (real L)) r)"
  define d where "d = length (trail p) + n - L"
  have len_old: "length old = length (trail p) + n"
    by (simp add: old_def length_post_step_positions)
  have IH: "trail r = drop d old"
    unfolding r_def old_def d_def by (rule Suc.IH)
  have next_all: "trail p @ post_step_positions (Suc n) dt E B (Finite (real L)) p = old @ [new]"
    by (simp add: post_step_positions_Suc old_def new_def r_def)
  have d_le: "d \<le> length old"
    by (simp add: d_def len_old)
  have len_r: "length (trail r) = min (length (trail p) + n) L"
    using assms by (simp add: IH len_old d_def)
  have step: "trail ((update dt E B (Finite (real L)) ^^ Suc n) p) =
      (if exceeds (Suc (length (trail r))) (Finite (real L))
       then tl (trail r @ [new]) else trail r @ [new])"
    by (simp add: update_trail r_def new_def)
  show ?case
  proof (cases "L \<le> length (trail p) + n")
    case True
    then have "exceeds (Suc (length (trail r))) (Finite (real L))"
      by (simp add: len_r)
    then have "trail ((update dt E B (Finite (real L)) ^^ Suc n) p) = tl (trail r @ [new])"
      by (simp only: step if_True)
    also have "\<dots> = tl (drop d (old @ [new]))"
      by (simp only: IH drop_snoc_le [OF d_le])
    also have "\<dots> = drop (Suc d) (old @ [new])"
      by (simp only: drop_Suc tl_drop)
    also have "Suc d = length (trail p) + Suc n - L"
      using True by (simp add: d_def)
    finally show ?thesis
      by (simp only: next_all)
  next
    case False
    then have "\<not> exceeds (Suc (length (trail r))) (Finite (real L))"
      by (simp add: len_r)
    then have "trail ((update dt E B (Finite (real L)) ^^ Suc n) p) = trail r @ [new]"
      by (simp only: step if_False)
    moreover have "d = 0" "length (trail p) + Suc n - L = 0"
      using False by (simp_all add: d_def)
    ultimately show ?thesis
      by (simp add: IH next_all)
  qed
qed

lemma trail_after_steps_Infinity:
  "trail ((update dt E B Infinity ^^ n) p) = trail p @ post_step_positions n dt E B Infinity p"
proof (induction n)
  case 0
  show ?case by (simp add: post_step_positions_def)
next
  case (Suc n)
  then show ?case
    by (simp add: update_trail post_step_positions_Suc)
qed

lemma update_keeps_bound:
  assumes "real (length (trail p)) \<le> l"
  shows "real (length (trail (update dt E B (Finite l) p))) \<le> l"
  using assms by (simp add: length_trail_update)

lemma update_keeps_capacity:
  "\<not> exceeds (length (trail p)) L \<Longrightarrow> \<not> exceeds (length (trail (update dt E B L p))) L"
  by (cases L) (simp_all add: length_trail_update)

lemma stepSimulation_keeps_invariant:
  "trail_invariant s \<Longrightarrow> trail_invariant (stepSimulation s)"
  by (simp add: trail_invariant_def stepSimulation_def Let_def list_all_iff
      update_keeps_capacity)

lemma probe_positions:
  "post_step_positions 3 1 no_field no_field L probe = [(2, 0), (4, 0), (6, 0)]"
proof -
  have pos: "position ((update 1 no_field no_field L ^^ k) probe) = (2 * real k, 0)" for k
    using zero_field_steps [where E = no_field and B = no_field and dt = 1 and L = L
        and n = k and p = probe]
    by (simp add: position_def no_field_def probe_def Particle_def)
  have steps: "[1..<Suc 3] = [1, 2, 3]"
    by code_simp
  show ?thesis
    unfolding post_step_positions_def steps by (simp add: pos)
qed

text \<open>
  C3 (as amended): a step appends the new position of the particle to its trail and then
  removes the oldest entry if the trail is longer than \<open>trailLength\<close>: one entry in, at
  most one out. Under a finite \<open>trailLength\<close> that stays the same, a trail within the
  bound stays within it, and so does every trail of a state through \<open>stepSimulation\<close>. From an empty trail and a fixed capacity \<open>K\<close>, after \<open>N > K\<close>
  steps the trail has \<open>K\<close> entries, the last \<open>K\<close> post-step positions, oldest first. With
  \<open>Infinity\<close> the trail after \<open>N\<close> steps holds all \<open>N\<close> post-step positions.
\<close>

theorem trail_bounded:
  "trail (update dt E B L p) =
     (if exceeds (Suc (length (trail p))) L
      then tl (trail p @ [position (update dt E B L p)])
      else trail p @ [position (update dt E B L p)]) \<and>
   (real (length (trail p)) \<le> l \<longrightarrow>
      real (length (trail (update dt E B (Finite l) p))) \<le> l) \<and>
   (trail_invariant s \<longrightarrow> trail_invariant (stepSimulation s)) \<and>
   (trail p = [] \<and> K < N \<longrightarrow>
      length (trail ((update dt E B (Finite (real K)) ^^ N) p)) = K \<and>
      trail ((update dt E B (Finite (real K)) ^^ N) p) =
        drop (N - K) (post_step_positions N dt E B (Finite (real K)) p)) \<and>
   (trail p = [] \<longrightarrow>
      length (trail ((update dt E B Infinity ^^ N) p)) = N \<and>
      trail ((update dt E B Infinity ^^ N) p) = post_step_positions N dt E B Infinity p)"
proof -
  have bounded: "trail ((update dt E B (Finite (real K)) ^^ N) p) =
      drop (N - K) (post_step_positions N dt E B (Finite (real K)) p)" if "trail p = []"
    using that
      trail_after_steps_finite [where p = p and L = K and dt = dt and E = E and B = B and n = N]
    by simp
  have len: "length (trail ((update dt E B (Finite (real K)) ^^ N) p)) = K"
    if "trail p = []" "K < N"
    using that by (simp add: bounded length_post_step_positions)
  show ?thesis
    using bounded len update_keeps_bound [where p = p and l = l and dt = dt and E = E and B = B]
      stepSimulation_keeps_invariant [of s]
    by (simp add: update_trail trail_after_steps_Infinity length_post_step_positions)
qed

theorem trail_bounded_witness:
  "real (length (trail probe)) \<le> 200 \<and>
   real (length (trail (update 1 no_field no_field (Finite 200) probe))) \<le> 200 \<and>
   trail (update 1 no_field no_field (Finite 200) probe) =
     [position (update 1 no_field no_field (Finite 200) probe)] \<and>
   trail_invariant one_particle \<and> trail_invariant (stepSimulation one_particle) \<and>
   trail probe = [] \<and> (2 :: nat) < 3 \<and>
   length (trail ((update 1 no_field no_field (Finite (real (2 :: nat))) ^^ 3) probe)) = 2 \<and>
   trail ((update 1 no_field no_field (Finite (real (2 :: nat))) ^^ 3) probe) = [(4, 0), (6, 0)] \<and>
   length (trail ((update 1 no_field no_field Infinity ^^ 3) probe)) = 3 \<and>
   trail ((update 1 no_field no_field Infinity ^^ 3) probe) = [(2, 0), (4, 0), (6, 0)]"
proof -
  have empty: "trail probe = []"
    by (simp add: probe_def Particle_def)
  have inv: "trail_invariant one_particle"
    by (simp add: trail_invariant_def one_particle_def addParticle_def initial_state_def
        Particle_def Let_def)
  show ?thesis
    using empty inv
      trail_bounded [where p = probe and dt = 1 and E = no_field and B = no_field
        and L = "Finite 200" and l = 200 and K = 2 and N = 3 and s = one_particle]
    by (simp add: probe_positions)
qed

text \<open>
  The bound does not hold across a change of capacity. A particle that made three steps
  under the capacity 200 has a trail of three entries; \<open>setTrailLength\<close> with 2 leaves
  the trail as it is, and the next step appends one entry and removes one, so the trail
  still has three.
\<close>

theorem trail_bound_counterexample:
  "trail_invariant three_steps \<and>
   trailLength (setTrailLength (Finite 2) three_steps) = Finite 2 \<and>
   map (\<lambda>p. length (trail p)) (particles (setTrailLength (Finite 2) three_steps)) = [3] \<and>
   \<not> trail_invariant (setTrailLength (Finite 2) three_steps) \<and>
   map (\<lambda>p. length (trail p))
     (particles (stepSimulation (setTrailLength (Finite 2) three_steps))) = [3] \<and>
   \<not> trail_invariant (stepSimulation (setTrailLength (Finite 2) three_steps))"
  by (simp add: trail_invariant_def three_steps_def stepSimulation_def Let_def
      one_particle_def addParticle_def initial_state_def length_trail_update Particle_def
      setTrailLength_def)

section \<open>The clock\<close>

text \<open>
  C5: \<open>stepSimulation\<close> maps \<open>update\<close> with \<open>dt = (1 / 60) timeScale\<close> and the current
  fields over the particles and adds \<open>dt\<close> to \<open>simulationTime\<close>. That is what \<open>draw\<close> does
  to the state while \<open>isPlaying\<close> holds; \<open>stepSimulation\<close> does it whatever \<open>isPlaying\<close>
  is and leaves the flag as it was. With \<open>isPlaying\<close> false \<open>draw\<close> changes nothing.
\<close>

theorem stepSimulation_is_playing_tick:
  "stepSimulation s =
     s\<lparr>particles :=
         map (update ((1 / 60) * timeScale s) (electricField s) (magneticField s) (trailLength s))
           (particles s),
       simulationTime := simulationTime s + (1 / 60) * timeScale s\<rparr> \<and>
   stepSimulation s = (draw (s\<lparr>isPlaying := True\<rparr>))\<lparr>isPlaying := isPlaying s\<rparr> \<and>
   (isPlaying s \<longrightarrow> draw s = stepSimulation s) \<and>
   (\<not> isPlaying s \<longrightarrow> draw s = s) \<and>
   isPlaying (stepSimulation s) = isPlaying s \<and>
   stepSimulation (s\<lparr>isPlaying := b\<rparr>) = (stepSimulation s)\<lparr>isPlaying := b\<rparr>"
  by (simp add: stepSimulation_def draw_def Let_def)

theorem stepSimulation_is_playing_tick_witness:
  "\<not> isPlaying one_particle \<and> draw one_particle = one_particle \<and>
   isPlaying (togglePlayPause one_particle) \<and>
   draw (togglePlayPause one_particle) = stepSimulation (togglePlayPause one_particle) \<and>
   simulationTime (stepSimulation one_particle) = 1 / 60 \<and>
   \<not> isPlaying (stepSimulation one_particle)"
proof -
  have flags: "\<not> isPlaying one_particle" "isPlaying (togglePlayPause one_particle)"
    by (simp_all add: one_particle_def addParticle_def initial_state_def togglePlayPause_def
        Let_def)
  have scale: "timeScale one_particle = 1" "simulationTime one_particle = 0"
    by (simp_all add: one_particle_def addParticle_def initial_state_def Let_def)
  show ?thesis
    using flags stepSimulation_is_playing_tick [of one_particle]
      stepSimulation_is_playing_tick [of "togglePlayPause one_particle"]
    by (simp add: scale)
qed

text \<open>
  C6: \<open>resetSimulation\<close> sets \<open>simulationTime\<close> to 0 and every trail to the empty list.
  The particles are the same ones in the same order, each with the id, charge, mass,
  position, velocity and selection flag it had, and every other global is unchanged.
\<close>

theorem reset_frame:
  "simulationTime (resetSimulation s) = 0 \<and>
   map trail (particles (resetSimulation s)) = replicate (length (particles s)) [] \<and>
   map id_p (particles (resetSimulation s)) = map id_p (particles s) \<and>
   map q (particles (resetSimulation s)) = map q (particles s) \<and>
   map m (particles (resetSimulation s)) = map m (particles s) \<and>
   map x (particles (resetSimulation s)) = map x (particles s) \<and>
   map y (particles (resetSimulation s)) = map y (particles s) \<and>
   map vx (particles (resetSimulation s)) = map vx (particles s) \<and>
   map vy (particles (resetSimulation s)) = map vy (particles s) \<and>
   map selected (particles (resetSimulation s)) = map selected (particles s) \<and>
   resetSimulation s =
     s\<lparr>simulationTime := 0, particles := map (\<lambda>p. p\<lparr>trail := []\<rparr>) (particles s)\<rparr> \<and>
   electricField (resetSimulation s) = electricField s \<and>
   magneticField (resetSimulation s) = magneticField s \<and>
   timeScale (resetSimulation s) = timeScale s \<and>
   trailLength (resetSimulation s) = trailLength s \<and>
   isPlaying (resetSimulation s) = isPlaying s \<and>
   particleIdCounter (resetSimulation s) = particleIdCounter s \<and>
   measureMode (resetSimulation s) = measureMode s \<and>
   measureStart (resetSimulation s) = measureStart s \<and>
   measureEnd (resetSimulation s) = measureEnd s \<and>
   measuring (resetSimulation s) = measuring s"
  by (simp add: resetSimulation_def comp_def map_replicate_const)

section \<open>Adding a particle\<close>

lemma string_of_nat_0: "string_of_nat 0 = ''0''"
  by (simp add: string_of_nat.simps)

lemma screenToWorld_centre: "screenToWorld (CANVAS_WIDTH / 2) (CANVAS_HEIGHT / 2) = (0, 0)"
  by (simp add: screenToWorld_def)

text \<open>
  C8 (as amended): \<open>addParticle\<close> checks nothing. Every call, whatever the mass, appends
  one particle at the world origin, with the charge, mass and velocity it was given, an
  empty trail, the selection flag off and the id \<open>p\<close> followed by the counter. The check is
  in the click handler of the add-particle button: when one of the four inputs is NaN, or
  the mass is not positive, it raises an alert and returns with the state as it was; with
  four numbers and a positive mass it calls \<open>addParticle\<close> once.
\<close>

theorem addParticle_unvalidated:
  "addParticle q0 m0 vx0 vy0 s =
     s\<lparr>particleIdCounter := particleIdCounter s + 1,
       particles := particles s @
         [\<lparr>id_p = ''p'' @ string_of_nat (particleIdCounter s), q = q0, m = m0, x = 0, y = 0,
           vx = vx0, vy = vy0, trail = [], selected = False\<rparr>]\<rparr> \<and>
   (qo = None \<or> mo = None \<or> vxo = None \<or> vyo = None \<longrightarrow>
      add_particle_click qo mo vxo vyo s =
        (Some ''Please enter valid numbers for all parameters'', s)) \<and>
   (mv \<le> 0 \<longrightarrow>
      add_particle_click (Some qv) (Some mv) (Some vxv) (Some vyv) s =
        (Some ''Mass must be a positive value'', s)) \<and>
   (0 < mv \<longrightarrow>
      add_particle_click (Some qv) (Some mv) (Some vxv) (Some vyv) s =
        (None, addParticle qv mv vxv vyv s))"
  by (auto simp add: addParticle_def Particle_def screenToWorld_centre Let_def
      add_particle_click_def split: option.splits)

theorem addParticle_unvalidated_witness:
  "particles (addParticle 1 2 3 4 initial_state) =
     [\<lparr>id_p = ''p0'', q = 1, m = 2, x = 0, y = 0, vx = 3, vy = 4, trail = [],
       selected = False\<rparr>] \<and>
   add_particle_click (Some 1) None (Some 3) (Some 4) initial_state =
     (Some ''Please enter valid numbers for all parameters'', initial_state) \<and>
   add_particle_click (Some 1) (Some 0) (Some 3) (Some 4) initial_state =
     (Some ''Mass must be a positive value'', initial_state) \<and>
   add_particle_click (Some 1) (Some 2) (Some 3) (Some 4) initial_state =
     (None, addParticle 1 2 3 4 initial_state)"
  using
    addParticle_unvalidated [where ?q0.0 = 1 and ?m0.0 = 2 and ?vx0.0 = 3 and ?vy0.0 = 4
      and s = initial_state and qo = "Some 1" and mo = None and vxo = "Some 3"
      and vyo = "Some 4" and mv = 0 and qv = 1 and vxv = 3 and vyv = 4]
    addParticle_unvalidated [where ?q0.0 = 1 and ?m0.0 = 2 and ?vx0.0 = 3 and ?vy0.0 = 4
      and s = initial_state and qo = "Some 1" and mo = None and vxo = "Some 3"
      and vyo = "Some 4" and mv = 2 and qv = 1 and vxv = 3 and vyv = 4]
  by (simp add: initial_state_def string_of_nat_0)

text \<open>Called with the mass 0 or \<open>-1\<close>, \<open>addParticle\<close> puts the particle in the collection.\<close>

theorem addParticle_rejects_counterexample:
  "map m (particles (addParticle 1 0 1 0 initial_state)) = [0] \<and>
   map m (particles (addParticle 1 (- 1) 1 0 initial_state)) = [- 1]"
  by (simp add: addParticle_def Particle_def initial_state_def Let_def)

section \<open>Importing a scene\<close>

lemma push_all_flag: "fst (push_all ds st) = (None \<notin> set ds)"
  by (induction ds st rule: push_all.induct) simp_all

lemma push_all_null:
  "those (map particle_of pre) = Some ps \<Longrightarrow>
   push_all (map Some pre @ None # rest) (Some s) =
     (False, Some (s\<lparr>particles := particles s @ ps\<rparr>))"
proof (induction pre arbitrary: s ps)
  case Nil
  then show ?case by simp
next
  case (Cons d pre)
  then obtain r rs where r: "particle_of d = Some r" and rs: "those (map particle_of pre) = Some rs"
    and ps: "ps = r # rs"
    by (auto split: option.splits)
  show ?case
    using Cons.IH [OF rs, of "s\<lparr>particles := particles s @ [r]\<rparr>"]
    by (simp add: r ps)
qed

lemma importScene_Failed_iff: "fst (importScene d s) = Failed \<longleftrightarrow> throws d"
proof (cases d)
  case None
  then show ?thesis by (simp add: importScene_def)
next
  case (Some scene)
  show ?thesis
  proof (cases "fields_doc scene")
    case None
    with Some show ?thesis by (simp add: importScene_def)
  next
    case fs: (Some fs)
    show ?thesis
    proof (cases "E_doc fs")
      case None
      with Some fs show ?thesis by (simp add: importScene_def)
    next
      case e: (Some e)
      show ?thesis
      proof (cases "B_doc fs")
        case None
        with Some fs e show ?thesis by (simp add: importScene_def)
      next
        case b: (Some b)
        show ?thesis
        proof (cases "particles_doc scene")
          case None
          with Some fs e b show ?thesis by (simp add: importScene_def)
        next
          case ds: (Some ds)
          define st where "st = map_option clearParticles
            (store_field setMagneticField b (store_field setElectricField e (Some s)))"
          obtain ok t where pushed: "push_all ds st = (ok, t)"
            by (cases "push_all ds st")
          then have "ok = (None \<notin> set ds)"
            using push_all_flag [of ds st] by simp
          then show ?thesis
            using Some fs e b ds pushed
            by (cases ok) (simp_all add: importScene_def Let_def st_def)
        qed
      qed
    qed
  qed
qed

lemma importScene_fails_at_once: "fails_at_once d \<Longrightarrow> importScene d s = (Failed, Some s)"
  by (cases d) (auto simp add: importScene_def split: option.splits)

lemma importScene_without_B:
  assumes "fields_doc scene = Some fs"
    and "E_doc fs = Some \<lparr>magnitude_doc = Some a, angle_deg_doc = Some b\<rparr>"
    and "B_doc fs = None"
  shows "importScene (Some scene) s = (Failed, Some (setElectricField a b s))"
  using assms by (simp add: importScene_def store_field_def)

lemma importScene_without_particles:
  assumes "fields_doc scene = Some fs"
    and "E_doc fs = Some \<lparr>magnitude_doc = Some a, angle_deg_doc = Some b\<rparr>"
    and "B_doc fs = Some \<lparr>magnitude_doc = Some c, angle_deg_doc = Some e\<rparr>"
    and "particles_doc scene = None"
  shows "importScene (Some scene) s =
    (Failed, Some (clearParticles (setMagneticField c e (setElectricField a b s))))"
  using assms by (simp add: importScene_def store_field_def)

lemma importScene_null_entry:
  assumes "fields_doc scene = Some fs"
    and "E_doc fs = Some \<lparr>magnitude_doc = Some a, angle_deg_doc = Some b\<rparr>"
    and "B_doc fs = Some \<lparr>magnitude_doc = Some c, angle_deg_doc = Some e\<rparr>"
    and "particles_doc scene = Some (map Some pre @ None # rest)"
    and "those (map particle_of pre) = Some ps"
  shows "importScene (Some scene) s =
    (Failed, Some ((clearParticles (setMagneticField c e (setElectricField a b s)))
       \<lparr>particles := ps\<rparr>))"
  using assms(1-4) push_all_null [OF assms(5), of rest
      "clearParticles (setMagneticField c e (setElectricField a b s))"]
  by (simp add: importScene_def store_field_def clearParticles_def)

text \<open>
  C7 (as amended): \<open>importScene\<close> reports a failure exactly when a statement of its
  \<^verbatim>\<open>try\<close> block throws: the text does not parse, \<^verbatim>\<open>fields\<close>, \<^verbatim>\<open>fields.E\<close>,
  \<^verbatim>\<open>fields.B\<close> or \<^verbatim>\<open>particles\<close> is absent, or an entry of \<^verbatim>\<open>particles\<close> is
  \<^verbatim>\<open>null\<close>. The state is the prior one only when the first statement throws (no
  document, no \<^verbatim>\<open>fields\<close>, no \<^verbatim>\<open>fields.E\<close>). A later failure keeps what was
  assigned before it: without \<^verbatim>\<open>fields.B\<close> the electric field is the document's;
  without \<^verbatim>\<open>particles\<close> both fields are the document's and the particles are cleared;
  at a \<^verbatim>\<open>null\<close> entry both fields are the document's and the particles are those of
  the entries before it.
\<close>

theorem importScene_malformed:
  "(fst (importScene d s) = Failed \<longleftrightarrow> throws d) \<and>
   (fails_at_once d \<longrightarrow> importScene d s = (Failed, Some s)) \<and>
   (fields_doc scene = Some fs \<and>
    E_doc fs = Some \<lparr>magnitude_doc = Some a, angle_deg_doc = Some b\<rparr> \<and> B_doc fs = None \<longrightarrow>
      importScene (Some scene) s = (Failed, Some (setElectricField a b s))) \<and>
   (fields_doc scene = Some fs \<and>
    E_doc fs = Some \<lparr>magnitude_doc = Some a, angle_deg_doc = Some b\<rparr> \<and>
    B_doc fs = Some \<lparr>magnitude_doc = Some c, angle_deg_doc = Some e\<rparr> \<and>
    particles_doc scene = None \<longrightarrow>
      importScene (Some scene) s =
        (Failed, Some (clearParticles (setMagneticField c e (setElectricField a b s))))) \<and>
   (fields_doc scene = Some fs \<and>
    E_doc fs = Some \<lparr>magnitude_doc = Some a, angle_deg_doc = Some b\<rparr> \<and>
    B_doc fs = Some \<lparr>magnitude_doc = Some c, angle_deg_doc = Some e\<rparr> \<and>
    particles_doc scene = Some (map Some pre @ None # rest) \<and>
    those (map particle_of pre) = Some ps \<longrightarrow>
      importScene (Some scene) s =
        (Failed, Some ((clearParticles (setMagneticField c e (setElectricField a b s)))
           \<lparr>particles := ps\<rparr>)))"
  using importScene_Failed_iff [of d s] importScene_fails_at_once [of d s]
    importScene_without_B [of scene fs a b s]
    importScene_without_particles [of scene fs a b c e s]
    importScene_null_entry [of scene fs a b c e pre rest ps s]
  by blast

theorem importScene_malformed_witness:
  "throws (Some scene_without_fields) \<and> fails_at_once (Some scene_without_fields) \<and>
   importScene (Some scene_without_fields) one_particle = (Failed, Some one_particle) \<and>
   importScene (Some scene_without_B) one_particle =
     (Failed, Some (setElectricField 2 0 one_particle)) \<and>
   importScene (Some scene_without_particles) one_particle =
     (Failed,
      Some (clearParticles (setMagneticField 1 90 (setElectricField 2 0 one_particle)))) \<and>
   importScene (Some scene_with_null_entry) one_particle =
     (Failed,
      Some ((clearParticles (setMagneticField 1 90 (setElectricField 2 0 one_particle)))
        \<lparr>particles := [Particle ''p7'' 1 1 0 0 2 0]\<rparr>))"
proof -
  show ?thesis
    using
      importScene_malformed [where d = "Some scene_without_fields" and s = one_particle
        and scene = scene_without_B and fs = "\<lparr>E_doc = Some doc_E, B_doc = None\<rparr>"
        and a = 2 and b = 0]
      importScene_malformed [where d = "Some scene_without_fields" and s = one_particle
        and scene = scene_without_particles
        and fs = "\<lparr>E_doc = Some doc_E, B_doc = Some doc_B\<rparr>"
        and a = 2 and b = 0 and c = 1 and e = 90]
      importScene_malformed [where d = "Some scene_without_fields" and s = one_particle
        and scene = scene_with_null_entry
        and fs = "\<lparr>E_doc = Some doc_E, B_doc = Some doc_B\<rparr>"
        and a = 2 and b = 0 and c = 1 and e = 90 and pre = "[doc_particle]"
        and rest = "[Some doc_particle]" and ps = "[Particle ''p7'' 1 1 0 0 2 0]"]
    by (simp add: scene_without_fields_def scene_without_B_def scene_without_particles_def
        scene_with_null_entry_def doc_E_def doc_B_def particle_of_def doc_particle_def)
qed

text \<open>
  A document with both fields and no \<^verbatim>\<open>particles\<close> array fails after the two field
  setters and \<open>clearParticles\<close> have run: the alert is raised, the fields are the
  document's and the one particle of the prior state is gone. A document whose field
  objects and particle entry have no keys is malformed and raises no alert: the import
  runs to its end and the globals hold \<^verbatim>\<open>undefined\<close>.
\<close>

theorem importScene_atomicity_counterexample:
  "malformed (Some scene_without_particles) \<and>
   importScene (Some scene_without_particles) one_particle =
     (Failed,
      Some (clearParticles (setMagneticField 1 90 (setElectricField 2 0 one_particle)))) \<and>
   clearParticles (setMagneticField 1 90 (setElectricField 2 0 one_particle)) \<noteq> one_particle \<and>
   length (particles one_particle) = 1 \<and>
   particles (clearParticles (setMagneticField 1 90 (setElectricField 2 0 one_particle))) = [] \<and>
   malformed (Some scene_of_empty_objects) \<and>
   importScene (Some scene_of_empty_objects) one_particle = (Loaded, None)"
proof -
  have changed: "particles (clearParticles (setMagneticField 1 90 (setElectricField 2 0 one_particle))) = []"
    "length (particles one_particle) = 1"
    by (simp_all add: clearParticles_def one_particle_def addParticle_def Let_def
        initial_state_def)
  then have "clearParticles (setMagneticField 1 90 (setElectricField 2 0 one_particle)) \<noteq> one_particle"
    by auto
  moreover have "importScene (Some scene_without_particles) one_particle =
     (Failed,
      Some (clearParticles (setMagneticField 1 90 (setElectricField 2 0 one_particle))))"
    by (simp add: importScene_def scene_without_particles_def store_field_def doc_E_def
        doc_B_def)
  moreover have "importScene (Some scene_of_empty_objects) one_particle = (Loaded, None)"
    by (simp add: importScene_def scene_of_empty_objects_def store_field_def particle_of_def
        empty_object_def)
  moreover have "malformed (Some scene_without_particles)" "malformed (Some scene_of_empty_objects)"
    by (simp_all add: scene_without_particles_def scene_of_empty_objects_def)
  ultimately show ?thesis
    using changed by simp
qed

end
